theory Spec2Isabelle
  imports Complex_Main
begin

section \<open>Battery degradation model: the data\<close>

text \<open>
  The engine lives in \<^verbatim>\<open>src/utils/degradationCalculator.js\<close>; its guard on the nominal
  capacity lives in \<^verbatim>\<open>src/services/battery.service.js\<close>.

  JavaScript numbers are idealised as real numbers: the rounding of double precision and
  overflow to Infinity are not modelled. The places where the source divides by a
  quantity that can be zero, or computes with \<^verbatim>\<open>undefined\<close>, are written out
  case by case with the value JavaScript produces there. A value that can be
  \<^verbatim>\<open>NaN\<close> has type \<open>jsnum\<close>.

  A payload field that is absent (\<^verbatim>\<open>undefined\<close>, and for \<^verbatim>\<open>currentCapacity\<close>
  also \<^verbatim>\<open>null\<close>) is \<open>None\<close>.
\<close>

datatype jsnum = Num real | NaN

record payload =
  chargeCycles :: "real option"
  avgTemperature :: "real option"
  nominalCapacity :: "real option"
  currentCapacity :: "real option"
  dodPct :: "real option"
  cRate :: "real option"
  calendarAgeMonths :: "real option"
  calendarAgeYears :: "real option"

record components =
  cycleFadePct :: real
  calendarFadePct :: real

record degradation =
  healthPct :: real
  soh :: real
  eolPct :: real
  estimatedRUIMonths :: int
  modelHealthPct :: real
  components :: components

text \<open>A trend point; its \<^verbatim>\<open>healthPct\<close> field is \<open>point_healthPct\<close> here.\<close>

record trend_point =
  cycle :: real
  point_healthPct :: jsnum
  capacity :: jsnum

record confidence =
  level :: string
  description :: string
  accuracy :: string

datatype error = Error string | TypeError string

fun message :: "error \<Rightarrow> string" where
  "message (Error m) = m"
| "message (TypeError m) = m"

section \<open>JavaScript primitives\<close>

text \<open>Truthiness of a number that may be absent: \<^verbatim>\<open>undefined\<close>, \<^verbatim>\<open>null\<close>
  and \<^verbatim>\<open>0\<close> are falsy.\<close>

fun truthy :: "real option \<Rightarrow> bool" where
  "truthy None = False"
| "truthy (Some x) = (x \<noteq> 0)"

text \<open>\<^verbatim>\<open>x < c\<close> for a field that may be \<^verbatim>\<open>undefined\<close>: \<^verbatim>\<open>undefined\<close> converts to
  \<^verbatim>\<open>NaN\<close> and the comparison is false.\<close>

fun js_lt :: "real option \<Rightarrow> real \<Rightarrow> bool" where
  "js_lt None c = False"
| "js_lt (Some x) c = (x < c)"

text \<open>\<^verbatim>\<open>a >= b\<close> on numbers that may be \<^verbatim>\<open>NaN\<close>.\<close>

fun js_ge :: "jsnum \<Rightarrow> jsnum \<Rightarrow> bool" where
  "js_ge (Num a) (Num b) = (b \<le> a)"
| "js_ge _ _ = False"

text \<open>\<^verbatim>\<open>+x.toFixed(2)\<close>: the nearest multiple of \<open>1/100\<close>, the larger one on a tie,
  computed on the absolute value with the sign put back. (From \<open>10^21\<close> on
  \<^verbatim>\<open>toFixed\<close> prints the number itself; a double of that size is an integer, for
  which the rounding below is the identity as well.)\<close>

definition toFixed2 :: "real \<Rightarrow> real" where
  "toFixed2 x =
     (if x < 0 then - (real_of_int (round (- x * 100)) / 100)
      else real_of_int (round (x * 100)) / 100)"

fun toFixed2J :: "jsnum \<Rightarrow> jsnum" where
  "toFixed2J (Num x) = Num (toFixed2 x)"
| "toFixed2J NaN = NaN"

section \<open>computeDegradation\<close>

definition R :: real where
  "R = 8.314"

text \<open>\<^verbatim>\<open>Math.exp(-Ea / (R * Tk))\<close>. The only caller passes \<open>Ea = 25000\<close>; at \<open>Tk = 0\<close> the
  quotient is \<^verbatim>\<open>-Infinity\<close> and the exponential is \<open>0\<close>.\<close>

definition arrhenius :: "real \<Rightarrow> real \<Rightarrow> real" where
  "arrhenius T Ea = (if R * T = 0 then 0 else exp (- Ea / (R * T)))"

text \<open>The destructuring defaults of \<^verbatim>\<open>computeDegradation\<close> and \<^verbatim>\<open>buildTrend\<close>.\<close>

definition chargeCyclesD :: "payload \<Rightarrow> real" where
  "chargeCyclesD payload = (case chargeCycles payload of None \<Rightarrow> 0 | Some c \<Rightarrow> c)"

definition avgTemperatureD :: "payload \<Rightarrow> real" where
  "avgTemperatureD payload = (case avgTemperature payload of None \<Rightarrow> 25 | Some t \<Rightarrow> t)"

definition nominalCapacityD :: "payload \<Rightarrow> real" where
  "nominalCapacityD payload = (case nominalCapacity payload of None \<Rightarrow> 100 | Some n \<Rightarrow> n)"

definition dodPctD :: "payload \<Rightarrow> real" where
  "dodPctD payload = (case dodPct payload of None \<Rightarrow> 80 | Some d \<Rightarrow> d)"

definition cRateD :: "payload \<Rightarrow> real" where
  "cRateD payload = (case cRate payload of None \<Rightarrow> 0.8 | Some c \<Rightarrow> c)"

text \<open>\<^verbatim>\<open>typeof calendarAgeYears === 'number' ? calendarAgeYears : (calendarAgeMonths || 0) / 12\<close>\<close>

definition ageYears :: "payload \<Rightarrow> real" where
  "ageYears payload =
     (case calendarAgeYears payload of
        Some y \<Rightarrow> y
      | None \<Rightarrow> (case calendarAgeMonths payload of None \<Rightarrow> 0 | Some m \<Rightarrow> m) / 12)"

text \<open>The local constants of \<^verbatim>\<open>computeDegradation\<close>, one definition each.\<close>

definition years :: "payload \<Rightarrow> real" where
  "years payload =
     (case calendarAgeYears payload of
        Some y \<Rightarrow> max y 0
      | None \<Rightarrow> max ((case calendarAgeMonths payload of None \<Rightarrow> 0 | Some m \<Rightarrow> m) / 12) 0)"

definition cRateAccel :: "payload \<Rightarrow> real" where
  "cRateAccel payload =
     (if cRateD payload > 1 then 1 + (cRateD payload - 1) * 0.5 else 1.0)"

definition DoD_factor :: "payload \<Rightarrow> real" where
  "DoD_factor payload = (max (dodPctD payload) 0 / 100) powr 0.6"

definition cycleFadeFraction :: "payload \<Rightarrow> real \<Rightarrow> real" where
  "cycleFadeFraction payload calibrationFactor =
     0.015 * calibrationFactor * DoD_factor payload
       * sqrt (max (chargeCyclesD payload) 0) * cRateAccel payload"

definition Tk :: "payload \<Rightarrow> real" where
  "Tk payload = avgTemperatureD payload + 273.15"

definition calendarFadeFraction :: "payload \<Rightarrow> real \<Rightarrow> real" where
  "calendarFadeFraction payload calibrationFactor =
     (if years payload > 0
      then 0.01 * calibrationFactor * arrhenius (Tk payload) 25000 * years payload powr 0.7
      else 0)"

definition totalFadePct :: "payload \<Rightarrow> real \<Rightarrow> real" where
  "totalFadePct payload calibrationFactor =
     (cycleFadeFraction payload calibrationFactor
        + calendarFadeFraction payload calibrationFactor) * 100"

definition modelHealthPctOf :: "payload \<Rightarrow> real \<Rightarrow> real" where
  "modelHealthPctOf payload calibrationFactor =
     max 0 (100 - totalFadePct payload calibrationFactor)"

text \<open>\<^verbatim>\<open>currentCapacity ? Math.max(0, Math.min(100, (currentCapacity / nominalCapacity) * 100))
  : modelHealthPct\<close>. With a nominal capacity of \<open>0\<close> the quotient is \<^verbatim>\<open>Infinity\<close> or
  \<^verbatim>\<open>-Infinity\<close>, which the clamp turns into \<open>100\<close> or \<open>0\<close>.\<close>

definition observedHealthPct :: "payload \<Rightarrow> real \<Rightarrow> real" where
  "observedHealthPct payload calibrationFactor =
     (if truthy (currentCapacity payload)
      then (let cur = the (currentCapacity payload); nom = nominalCapacityD payload
            in if nom = 0 then (if cur > 0 then 100 else 0)
               else max 0 (min 100 ((cur / nom) * 100)))
      else modelHealthPctOf payload calibrationFactor)"

definition computeDegradation :: "payload \<Rightarrow> real \<Rightarrow> degradation" where
  "computeDegradation payload calibrationFactor =
     (let soh = observedHealthPct payload calibrationFactor;
          eolPct = 70;
          yearsElapsed = max (years payload) 0.1;
          monthsElapsed = max 1 (yearsElapsed * 12);
          currentFadePct = 100 - soh;
          monthlyFadeRate = max (currentFadePct / monthsElapsed) 0.05;
          remainingFadeNeeded = soh - eolPct;
          monthsToEol = max 0 (remainingFadeNeeded / monthlyFadeRate)
      in \<lparr> healthPct = observedHealthPct payload calibrationFactor,
           soh = soh,
           eolPct = eolPct,
           estimatedRUIMonths = round monthsToEol,
           modelHealthPct = modelHealthPctOf payload calibrationFactor,
           components =
             \<lparr> cycleFadePct = toFixed2 (cycleFadeFraction payload calibrationFactor * 100),
               calendarFadePct = toFixed2 (calendarFadeFraction payload calibrationFactor * 100) \<rparr> \<rparr>)"

text \<open>The function body has no \<^verbatim>\<open>throw\<close> and only arithmetic on numbers: as a call
  that may throw, it always returns. The specification calls it \<^verbatim>\<open>evaluateFade\<close>.\<close>

definition evaluateFade :: "payload \<Rightarrow> real \<Rightarrow> error + degradation" where
  "evaluateFade payload calibrationFactor = Inr (computeDegradation payload calibrationFactor)"

section \<open>calculateCalibrationFactor\<close>

text \<open>The function reads \<^verbatim>\<open>nominalCapacity\<close> and \<^verbatim>\<open>chargeCycles\<close> without defaults.
  \<^item> \<^verbatim>\<open>chargeCycles\<close> absent: \<^verbatim>\<open>undefined < 50\<close> is false.
  \<^item> \<^verbatim>\<open>nominalCapacity\<close> absent: the measured ratio is \<^verbatim>\<open>NaN\<close>, which
    \<^verbatim>\<open>Math.min\<close> and \<^verbatim>\<open>Math.max\<close> hand on.
  \<^item> \<^verbatim>\<open>nominalCapacity\<close> zero: the measured ratio is \<^verbatim>\<open>Infinity\<close> with the sign of
    \<^verbatim>\<open>currentCapacity\<close>, the quotient of the fades has the opposite sign (the model
    fade is at least \<open>0.1\<close> there) and is clamped to \<open>0.1\<close> or \<open>3\<close>.\<close>

definition modelFadePctOf :: "payload \<Rightarrow> real" where
  "modelFadePctOf payload = 100 - modelHealthPct (computeDegradation payload 1.0)"

definition calculateCalibrationFactor :: "payload \<Rightarrow> jsnum" where
  "calculateCalibrationFactor payload =
     (if \<not> truthy (currentCapacity payload) \<or> js_lt (chargeCycles payload) 50 then Num 1.0
      else
        let cur = the (currentCapacity payload);
            modelFadePct = modelFadePctOf payload
        in if modelFadePct < 0.1 then Num 1.0
           else (case nominalCapacity payload of
                   None \<Rightarrow> NaN
                 | Some nom \<Rightarrow>
                     if nom = 0 then Num (if cur > 0 then 0.1 else 3.0)
                     else
                       let actualHealthPct = (cur / nom) * 100;
                           actualFadePct = 100 - actualHealthPct
                       in Num (max 0.1 (min 3.0 (actualFadePct / modelFadePct)))))"

section \<open>buildTrend\<close>

definition totalCyclesOf :: "payload \<Rightarrow> real" where
  "totalCyclesOf payload = max (chargeCyclesD payload) 0"

text \<open>\<^verbatim>\<open>Math.max(25, Math.floor(totalCycles / 20) || 25)\<close>\<close>

definition step :: "real \<Rightarrow> real" where
  "step totalCycles =
     max 25 (let fl = real_of_int \<lfloor>totalCycles / 20\<rfloor> in if fl = 0 then 25 else fl)"

text \<open>\<^verbatim>\<open>sim.healthPct\<close> of \<^verbatim>\<open>computeDegradation(q, calibrationFactor)\<close> for a payload
  \<open>q\<close> without \<^verbatim>\<open>currentCapacity\<close>, where the factor may be \<^verbatim>\<open>NaN\<close>: then
  \<^verbatim>\<open>k_c_base\<close>, both sums and \<^verbatim>\<open>Math.max(0, ...)\<close> are \<^verbatim>\<open>NaN\<close>.\<close>

fun simHealthPct :: "payload \<Rightarrow> jsnum \<Rightarrow> jsnum" where
  "simHealthPct q (Num f) = Num (healthPct (computeDegradation q f))"
| "simHealthPct q NaN = NaN"

fun js_scale :: "jsnum \<Rightarrow> real \<Rightarrow> jsnum" where
  "js_scale (Num h) nom = Num ((h / 100) * nom)"
| "js_scale NaN nom = NaN"

definition mkPoint :: "real \<Rightarrow> jsnum \<Rightarrow> real \<Rightarrow> trend_point" where
  "mkPoint i h nom =
     \<lparr> cycle = i, point_healthPct = toFixed2J h, capacity = toFixed2J (js_scale h nom) \<rparr>"

text \<open>The object handed to \<^verbatim>\<open>computeDegradation\<close> in the body of the \<^verbatim>\<open>for\<close>
  loop at index \<open>i\<close>.\<close>

definition loopPayload :: "payload \<Rightarrow> real \<Rightarrow> payload" where
  "loopPayload payload i =
     (let totalCycles = totalCyclesOf payload;
          yearsProgress =
            ageYears payload * (i / max (if totalCycles = 0 then 1 else totalCycles) 1)
      in \<lparr> chargeCycles = Some i,
           avgTemperature = Some (avgTemperatureD payload),
           nominalCapacity = Some (nominalCapacityD payload),
           currentCapacity = None,
           dodPct = Some (dodPctD payload),
           cRate = Some (cRateD payload),
           calendarAgeMonths = None,
           calendarAgeYears = Some yearsProgress \<rparr>)"

text \<open>The body of the \<^verbatim>\<open>for\<close> loop at index \<open>i\<close>.\<close>

definition loopPoint :: "payload \<Rightarrow> jsnum \<Rightarrow> real \<Rightarrow> trend_point" where
  "loopPoint payload calibrationFactor i =
     (let sim = simHealthPct (loopPayload payload i) calibrationFactor
      in mkPoint i sim (nominalCapacityD payload))"

text \<open>\<^verbatim>\<open>for (let i = 0; i <= totalCycles; i += step)\<close>, from index \<open>i\<close> on.\<close>

function trendLoop :: "payload \<Rightarrow> jsnum \<Rightarrow> real \<Rightarrow> trend_point list" where
  "trendLoop payload calibrationFactor i =
     (if i \<le> totalCyclesOf payload
      then loopPoint payload calibrationFactor i
             # trendLoop payload calibrationFactor (i + step (totalCyclesOf payload))
      else [])"
  by pat_completeness auto
termination
proof (relation "measure (\<lambda>(payload, calibrationFactor, i).
                   nat (\<lceil>(totalCyclesOf payload - i) / 25\<rceil> + 1))")
  show "wf (measure (\<lambda>(payload, calibrationFactor, i).
                   nat (\<lceil>(totalCyclesOf payload - i) / 25\<rceil> + 1)))"
    by simp
next
  fix payload :: payload and calibrationFactor :: jsnum and i :: real
  assume le: "i \<le> totalCyclesOf payload"
  have s: "25 \<le> step (totalCyclesOf payload)"
    by (simp add: step_def)
  have "(totalCyclesOf payload - (i + step (totalCyclesOf payload))) / 25
          \<le> (totalCyclesOf payload - i) / 25 - 1"
    using s by (simp add: field_simps)
  then have "\<lceil>(totalCyclesOf payload - (i + step (totalCyclesOf payload))) / 25\<rceil>
          \<le> \<lceil>(totalCyclesOf payload - i) / 25\<rceil> - 1"
    by (metis ceiling_mono ceiling_diff_one)
  moreover have "0 \<le> \<lceil>(totalCyclesOf payload - i) / 25\<rceil>"
    using le by simp
  ultimately show "((payload, calibrationFactor, i + step (totalCyclesOf payload)),
                    (payload, calibrationFactor, i))
        \<in> measure (\<lambda>(payload, calibrationFactor, i).
                   nat (\<lceil>(totalCyclesOf payload - i) / 25\<rceil> + 1))"
    by simp
qed

declare trendLoop.simps [simp del]

text \<open>The object handed to \<^verbatim>\<open>computeDegradation\<close> after the loop:
  \<^verbatim>\<open>{...payload, currentCapacity: null, chargeCycles: totalCycles,
  calendarAgeYears: yearsAtEnd}\<close>.\<close>

definition endPayload :: "payload \<Rightarrow> payload" where
  "endPayload payload =
     (let totalCycles = totalCyclesOf payload;
          yearsAtEnd = ageYears payload
      in payload \<lparr> currentCapacity := None,
                   chargeCycles := Some totalCycles,
                   calendarAgeYears := Some yearsAtEnd \<rparr>)"

text \<open>The point appended after the loop.\<close>

definition endPoint :: "payload \<Rightarrow> jsnum \<Rightarrow> trend_point" where
  "endPoint payload calibrationFactor =
     (let sim = simHealthPct (endPayload payload) calibrationFactor
      in mkPoint (totalCyclesOf payload) sim (nominalCapacityD payload))"

text \<open>\<^verbatim>\<open>points[points.length - 1].cycle\<close> throws a TypeError on an empty array.\<close>

definition buildTrend :: "payload \<Rightarrow> error + trend_point list" where
  "buildTrend payload =
     (let totalCycles = totalCyclesOf payload;
          calibrationFactor = calculateCalibrationFactor payload;
          points = trendLoop payload calibrationFactor 0
      in if points = [] then Inl (TypeError ''Cannot read properties of undefined'')
         else if cycle (last points) < totalCycles
         then Inr (points @ [endPoint payload calibrationFactor])
         else Inr points)"

section \<open>getModelConfidence\<close>

text \<open>The sign \<^verbatim>\<open>U+00B1\<close> is the character \<open>CHR 0xB1\<close>.\<close>

definition confidenceInsufficient :: confidence where
  "confidenceInsufficient =
     \<lparr> level = ''low'',
       description = ''Insufficient cycle data for accurate prediction'',
       accuracy = CHR 0xB1 # ''6 months'' \<rparr>"

definition confidenceHigh :: confidence where
  "confidenceHigh =
     \<lparr> level = ''high'',
       description = ''Model closely matches measured performance'',
       accuracy = CHR 0xB1 # ''2 months'' \<rparr>"

definition confidenceMedium :: confidence where
  "confidenceMedium =
     \<lparr> level = ''medium'',
       description = ''Model adjusted based on actual measurements'',
       accuracy = CHR 0xB1 # ''4 months'' \<rparr>"

definition confidenceDeviation :: confidence where
  "confidenceDeviation =
     \<lparr> level = ''low'',
       description = ''Significant deviation between model and measurements'',
       accuracy = CHR 0xB1 # ''6 months'' \<rparr>"

text \<open>Comparisons with \<^verbatim>\<open>NaN\<close> are false, so a \<^verbatim>\<open>NaN\<close> factor reaches the last
  branch.\<close>

definition getModelConfidence :: "payload \<Rightarrow> confidence" where
  "getModelConfidence payload =
     (if \<not> truthy (currentCapacity payload) \<or> js_lt (chargeCycles payload) 50
      then confidenceInsufficient
      else (case calculateCalibrationFactor payload of
              NaN \<Rightarrow> confidenceDeviation
            | Num calibrationFactor \<Rightarrow>
                if calibrationFactor \<ge> 0.8 \<and> calibrationFactor \<le> 1.2 then confidenceHigh
                else if calibrationFactor \<ge> 0.5 \<and> calibrationFactor \<le> 2.0
                then confidenceMedium
                else confidenceDeviation))"

section \<open>The service: analyzeBatteryHealth\<close>

text \<open>\<^verbatim>\<open>determineBatteryStatus\<close>, the status label.\<close>

definition determineBatteryStatus :: "real \<Rightarrow> string" where
  "determineBatteryStatus s =
     (if s \<ge> 90 then ''Excellent''
      else if s \<ge> 80 then ''Good''
      else if s \<ge> 70 then ''Fair''
      else if s \<ge> 60 then ''Poor''
      else ''Critical'')"

text \<open>The part of the response that the engine computes. The \<^verbatim>\<open>meta\<close> block, the echo
  of the input and the recommendation texts are left out: they are built after the
  guard and the three engine calls and do not throw.\<close>

record analysis =
  results_degradation :: degradation
  results_status :: string
  results_confidence :: confidence
  results_trend :: "trend_point list"

text \<open>\<^verbatim>\<open>!input.nominalCapacity || input.nominalCapacity <= 0\<close>\<close>

fun nominalCapacityRejected :: "real option \<Rightarrow> bool" where
  "nominalCapacityRejected None = True"
| "nominalCapacityRejected (Some n) = (n = 0 \<or> n \<le> 0)"

text \<open>The body of the \<^verbatim>\<open>try\<close> block.\<close>

definition analyzeBody :: "payload \<Rightarrow> error + analysis" where
  "analyzeBody payload =
     (if nominalCapacityRejected (nominalCapacity payload)
      then Inl (Error ''nominalCapacity must be a positive number'')
      else
        let degradationResult = computeDegradation payload 1.0
        in (case buildTrend payload of
              Inl e \<Rightarrow> Inl e
            | Inr trend \<Rightarrow>
                Inr \<lparr> results_degradation = degradationResult,
                      results_status = determineBatteryStatus (soh degradationResult),
                      results_confidence = getModelConfidence payload,
                      results_trend = trend \<rparr>))"

text \<open>The \<^verbatim>\<open>catch\<close> clause throws a new error with a prefixed message.\<close>

definition analyzeBatteryHealth :: "payload \<Rightarrow> error + analysis" where
  "analyzeBatteryHealth payload =
     (case analyzeBody payload of
        Inl e \<Rightarrow> Inl (Error (''Battery analysis failed: '' @ message e))
      | Inr result \<Rightarrow> Inr result)"

section \<open>The formulas as the specification words them\<close>

text \<open>Cycle fade fraction: \<open>k_c * DoD_factor * sqrt(cycles) * cRateAccel\<close> with
  \<open>DoD_factor = (dodPct/100)^0.6\<close>, \<open>k_c = 0.015 * calibrationFactor\<close> and
  \<open>cRateAccel = 1 + max(0, cRate - 1) * 0.5\<close>.\<close>

definition spec_cycleFade :: "real \<Rightarrow> real \<Rightarrow> real \<Rightarrow> real \<Rightarrow> real" where
  "spec_cycleFade f dod cycles crate =
     0.015 * f * (dod / 100) powr 0.6 * sqrt (max cycles 0) * (1 + max 0 (crate - 1) * 0.5)"

text \<open>Calendar fade fraction: \<open>k_t * exp(-Ea / (R * (T + 273.15))) * years^0.7\<close> if
  \<open>years > 0\<close>, else \<open>0\<close>, with \<open>k_t = 0.01 * calibrationFactor\<close>.\<close>

definition spec_calendarFade :: "real \<Rightarrow> real \<Rightarrow> real \<Rightarrow> real" where
  "spec_calendarFade f T yrs =
     (if yrs > 0 then 0.01 * f * exp (- 25000 / (8.314 * (T + 273.15))) * yrs powr 0.7
      else 0)"

text \<open>\<open>clamp(x, lo, hi)\<close>\<close>

definition clamp :: "real \<Rightarrow> real \<Rightarrow> real \<Rightarrow> real" where
  "clamp x lo hi = max lo (min hi x)"

section \<open>Example payloads\<close>

text \<open>The payload with every field absent.\<close>

definition emptyPayload :: payload where
  "emptyPayload =
     \<lparr> chargeCycles = None, avgTemperature = None, nominalCapacity = None,
       currentCapacity = None, dodPct = None, cRate = None,
       calendarAgeMonths = None, calendarAgeYears = None \<rparr>"

text \<open>The scenario of the README and of the specification.\<close>

definition scenario :: payload where
  "scenario =
     \<lparr> chargeCycles = Some 550, avgTemperature = Some 32, nominalCapacity = Some 100,
       currentCapacity = Some 84, dodPct = Some 80, cRate = Some 0.8,
       calendarAgeMonths = Some 24, calendarAgeYears = None \<rparr>"

text \<open>A battery of nominal capacity \<open>100\<close> after \<open>100\<close> full-depth cycles and no calendar
  age, with a measured capacity \<open>cur\<close>: the uncalibrated model fade is \<open>15\<close> percent.\<close>

definition measured :: "real \<Rightarrow> payload" where
  "measured cur =
     \<lparr> chargeCycles = Some 100, avgTemperature = None, nominalCapacity = Some 100,
       currentCapacity = Some cur, dodPct = Some 100, cRate = None,
       calendarAgeMonths = None, calendarAgeYears = None \<rparr>"

section \<open>The trend: shape of the sampled sequence\<close>

lemma years_eq: "years p = max (ageYears p) 0"
  by (simp add: years_def ageYears_def split: option.splits)

lemma step_ge: "25 \<le> step t"
  by (simp add: step_def)

lemma step_spec: "0 \<le> t \<Longrightarrow> step t = max 25 (real_of_int \<lfloor>t / 20\<rfloor>)"
proof -
  assume "0 \<le> t"
  then have "0 \<le> \<lfloor>t / 20\<rfloor>" by simp
  then show ?thesis by (auto simp: step_def Let_def max_def floor_eq_iff)
qed

lemma totalCyclesOf_nonneg: "0 \<le> totalCyclesOf p"
  by (simp add: totalCyclesOf_def)

lemma trendLoop_ne: "trendLoop p cf 0 \<noteq> []"
  using totalCyclesOf_nonneg [of p] by (subst trendLoop.simps) simp

lemma cycle_loopPoint: "cycle (loopPoint p cf i) = i"
  by (simp add: loopPoint_def mkPoint_def Let_def)

lemma cycle_endPoint: "cycle (endPoint p cf) = totalCyclesOf p"
  by (simp add: endPoint_def mkPoint_def Let_def)

lemma trendLoop_bounds:
  "pt \<in> set (trendLoop p cf i) \<Longrightarrow> i \<le> cycle pt \<and> cycle pt \<le> totalCyclesOf p"
proof (induction p cf i rule: trendLoop.induct)
  case (1 p cf i)
  show ?case
  proof (cases "i \<le> totalCyclesOf p")
    case True
    from "1.prems" True
    have "pt = loopPoint p cf i \<or> pt \<in> set (trendLoop p cf (i + step (totalCyclesOf p)))"
      by (subst (asm) trendLoop.simps) simp
    then show ?thesis
    proof
      assume "pt = loopPoint p cf i"
      then show ?thesis using True by (simp add: cycle_loopPoint)
    next
      assume "pt \<in> set (trendLoop p cf (i + step (totalCyclesOf p)))"
      from "1.IH" [OF True this] step_ge [of "totalCyclesOf p"]
      show ?thesis by simp
    qed
  next
    case False
    with "1.prems" show ?thesis by (subst (asm) trendLoop.simps) simp
  qed
qed

lemma trendLoop_sorted: "sorted_wrt (<) (map cycle (trendLoop p cf i))"
proof (induction p cf i rule: trendLoop.induct)
  case (1 p cf i)
  show ?case
  proof (cases "i \<le> totalCyclesOf p")
    case True
    have "\<forall>pt \<in> set (trendLoop p cf (i + step (totalCyclesOf p))). i < cycle pt"
      using trendLoop_bounds [of _ p cf "i + step (totalCyclesOf p)"] step_ge [of "totalCyclesOf p"]
      by fastforce
    with "1.IH" [OF True] True show ?thesis
      by (subst trendLoop.simps) (simp add: cycle_loopPoint)
  next
    case False
    then show ?thesis by (subst trendLoop.simps) simp
  qed
qed

lemma hd_trendLoop: "hd (trendLoop p cf 0) = loopPoint p cf 0"
  using totalCyclesOf_nonneg [of p] by (subst trendLoop.simps) simp


lemma toFixed2_100: "toFixed2 100 = 100"
  by (simp add: toFixed2_def)

lemma totalFadePct_zero:
  "chargeCyclesD q \<le> 0 \<Longrightarrow> years q = 0 \<Longrightarrow> totalFadePct q f = 0"
  by (simp add: totalFadePct_def cycleFadeFraction_def calendarFadeFraction_def max_def)

lemma healthPct_no_measurement:
  "currentCapacity q = None \<Longrightarrow>
     healthPct (computeDegradation q f) = max 0 (100 - totalFadePct q f)"
  by (simp add: computeDegradation_def Let_def observedHealthPct_def modelHealthPctOf_def)

lemma loopPoint_0:
  "loopPoint p (Num f) 0
     = \<lparr> cycle = 0, point_healthPct = Num 100,
         capacity = Num (toFixed2 (nominalCapacityD p)) \<rparr>"
proof -
  let ?q = "\<lparr> chargeCycles = Some 0,
              avgTemperature = Some (avgTemperatureD p),
              nominalCapacity = Some (nominalCapacityD p),
              currentCapacity = None,
              dodPct = Some (dodPctD p),
              cRate = Some (cRateD p),
              calendarAgeMonths = None,
              calendarAgeYears = Some 0 \<rparr>"
  have "totalFadePct ?q f = 0"
    by (rule totalFadePct_zero) (simp_all add: chargeCyclesD_def years_eq ageYears_def)
  then have "healthPct (computeDegradation ?q f) = 100"
    by (simp add: healthPct_no_measurement)
  then show ?thesis
    by (simp add: loopPoint_def loopPayload_def mkPoint_def Let_def toFixed2_100)
qed

lemma loopPoint_0_health:
  "point_healthPct (loopPoint p (Num f) 0) = Num 100"
  by (simp add: loopPoint_0)

lemma clamp_factor_bounds:
  fixes x :: real
  shows "0.1 \<le> max 0.1 (min 3.0 x)" and "max 0.1 (min 3.0 x) \<le> 3"
  by (rule max.cobounded1) (rule max.boundedI, simp_all)

lemma calibration_cases:
  assumes "nominalCapacity p = Some nom"
  shows "calculateCalibrationFactor p = Num 1
       \<or> calculateCalibrationFactor p = Num 0.1
       \<or> calculateCalibrationFactor p = Num 3
       \<or> (\<exists>x. calculateCalibrationFactor p = Num (max 0.1 (min 3.0 x)))"
  unfolding calculateCalibrationFactor_def Let_def assms option.case
  by (cases "\<not> truthy (currentCapacity p) \<or> js_lt (chargeCycles p) 50";
      cases "modelFadePctOf p < 0.1"; cases "nom = 0";
      cases "the (currentCapacity p) > 0") auto

lemma calibration_range:
  assumes "nominalCapacity p \<noteq> None"
  shows "\<exists>f. calculateCalibrationFactor p = Num f \<and> 0.1 \<le> f \<and> f \<le> 3"
proof -
  from assms obtain nom where nom: "nominalCapacity p = Some nom" by auto
  from calibration_cases [OF nom] consider
      "calculateCalibrationFactor p = Num 1"
    | "calculateCalibrationFactor p = Num 0.1"
    | "calculateCalibrationFactor p = Num 3"
    | x where "calculateCalibrationFactor p = Num (max 0.1 (min 3.0 x))"
    by blast
  then show ?thesis
  proof cases
    case 4
    then show ?thesis using clamp_factor_bounds [of x] by blast
  next
    case 2
    then show ?thesis by (intro exI [of _ "0.1"]) simp
  qed simp_all
qed

text \<open>
  Claim C1. For a payload whose charge cycles are \<open>N \<ge> 0\<close> (absent cycles count as \<open>0\<close>),
  \<^verbatim>\<open>buildTrend\<close> returns a non-empty sequence of points, strictly ascending in
  \<open>cycle\<close>, whose first point is at cycle \<open>0\<close> and whose last point is at cycle \<open>N\<close>
  exactly, whatever the relation of \<open>N\<close> to the step \<open>max(25, floor(N/20))\<close>. The first
  point has \<open>healthPct = 100\<close> for every payload that carries the required
  \<^verbatim>\<open>nominalCapacity\<close>.
\<close>

theorem buildTrend_anchored:
  assumes "chargeCyclesD p = N" and "0 \<le> N"
  shows "\<exists>pts. buildTrend p = Inr pts \<and> pts \<noteq> []
           \<and> sorted_wrt (<) (map cycle pts)
           \<and> cycle (hd pts) = 0
           \<and> cycle (last pts) = N
           \<and> step N = max 25 (real_of_int \<lfloor>N / 20\<rfloor>)
           \<and> (nominalCapacity p \<noteq> None \<longrightarrow> point_healthPct (hd pts) = Num 100)"
proof -
  define cf where "cf = calculateCalibrationFactor p"
  define points where "points = trendLoop p cf 0"
  have total: "totalCyclesOf p = N"
    using assms by (simp add: totalCyclesOf_def)
  have ne: "points \<noteq> []"
    by (simp add: points_def trendLoop_ne)
  have hd_pt: "hd points = loopPoint p cf 0"
    by (simp add: points_def hd_trendLoop)
  have sorted_pts: "sorted_wrt (<) (map cycle points)"
    by (simp add: points_def trendLoop_sorted)
  have last_le: "cycle (last points) \<le> N"
    using trendLoop_bounds [of "last points" p cf 0] ne total
    by (simp add: points_def)
  have health: "nominalCapacity p \<noteq> None \<longrightarrow> point_healthPct (hd points) = Num 100"
  proof
    assume "nominalCapacity p \<noteq> None"
    then obtain f where "cf = Num f"
      using calibration_range [of p] by (auto simp: cf_def)
    then show "point_healthPct (hd points) = Num 100"
      by (simp add: hd_pt loopPoint_0_health)
  qed
  have st: "step N = max 25 (real_of_int \<lfloor>N / 20\<rfloor>)"
    using assms(2) by (rule step_spec)
  show ?thesis
  proof (cases "cycle (last points) < N")
    case True
    have bt: "buildTrend p = Inr (points @ [endPoint p cf])"
      using ne True total by (simp add: buildTrend_def Let_def cf_def points_def)
    have "\<forall>pt \<in> set points. cycle pt < N"
    proof
      fix pt assume pt: "pt \<in> set points"
      then obtain k where k: "k < length points" "pt = points ! k"
        by (auto simp: in_set_conv_nth)
      show "cycle pt < N"
      proof (cases "k = length points - 1")
        case True
        then show ?thesis using \<open>cycle (last points) < N\<close> ne k by (simp add: last_conv_nth)
      next
        case False
        then have "k < length points - 1" using k by simp
        then have "cycle (points ! k) < cycle (points ! (length points - 1))"
          using sorted_pts ne
          by (simp add: sorted_wrt_iff_nth_less)
        then show ?thesis using \<open>cycle (last points) < N\<close> ne k by (simp add: last_conv_nth)
      qed
    qed
    then have "sorted_wrt (<) (map cycle (points @ [endPoint p cf]))"
      using sorted_pts total by (simp add: sorted_wrt_append cycle_endPoint)
    moreover have "cycle (hd (points @ [endPoint p cf])) = 0"
      using ne hd_pt by (simp add: cycle_loopPoint)
    moreover have "cycle (last (points @ [endPoint p cf])) = N"
      using total by (simp add: cycle_endPoint)
    moreover have "nominalCapacity p \<noteq> None
        \<longrightarrow> point_healthPct (hd (points @ [endPoint p cf])) = Num 100"
      using health ne by simp
    ultimately show ?thesis using bt st by simp
  next
    case False
    have bt: "buildTrend p = Inr points"
      using ne False total by (simp add: buildTrend_def Let_def cf_def points_def)
    have "cycle (last points) = N" using False last_le by simp
    moreover have "cycle (hd points) = 0" by (simp add: hd_pt cycle_loopPoint)
    ultimately show ?thesis using bt ne sorted_pts health st by simp
  qed
qed

theorem buildTrend_anchored_witness:
  "chargeCyclesD \<lparr> chargeCycles = Some 60, avgTemperature = None, nominalCapacity = Some 100,
        currentCapacity = None, dodPct = None, cRate = None, calendarAgeMonths = None,
        calendarAgeYears = None \<rparr> = 60
   \<and> (0::real) \<le> 60
   \<and> (\<exists>pts. buildTrend \<lparr> chargeCycles = Some 60, avgTemperature = None,
        nominalCapacity = Some 100, currentCapacity = None, dodPct = None, cRate = None,
        calendarAgeMonths = None, calendarAgeYears = None \<rparr> = Inr pts
        \<and> pts \<noteq> [] \<and> sorted_wrt (<) (map cycle pts) \<and> cycle (hd pts) = 0
        \<and> cycle (last pts) = 60 \<and> point_healthPct (hd pts) = Num 100)"
proof -
  let ?p = "\<lparr> chargeCycles = Some 60, avgTemperature = None, nominalCapacity = Some 100,
        currentCapacity = None, dodPct = None, cRate = None, calendarAgeMonths = None,
        calendarAgeYears = None \<rparr>"
  have h: "chargeCyclesD ?p = 60" by (simp add: chargeCyclesD_def)
  from buildTrend_anchored [OF h] show ?thesis using h by auto
qed

section \<open>Calibration\<close>

lemma sqrt_100: "sqrt 100 = 10"
  by (rule real_sqrt_unique) simp_all

lemma modelFadePctOf_eq: "modelFadePctOf p = 100 - max 0 (100 - totalFadePct p 1)"
  by (simp add: modelFadePctOf_def computeDegradation_def Let_def modelHealthPctOf_def)

lemma totalFadePct_measured: "totalFadePct (measured cur) 1 = 15"
  by (simp add: measured_def totalFadePct_def cycleFadeFraction_def calendarFadeFraction_def
        DoD_factor_def dodPctD_def chargeCyclesD_def cRateAccel_def cRateD_def years_eq
        ageYears_def sqrt_100)

lemma modelFadePctOf_measured: "modelFadePctOf (measured cur) = 15"
  by (simp add: modelFadePctOf_eq totalFadePct_measured)

lemma calibration_measured:
  "cur \<noteq> 0 \<Longrightarrow>
     calculateCalibrationFactor (measured cur) = Num (max 0.1 (min 3.0 ((100 - cur) / 15)))"
  by (simp add: calculateCalibrationFactor_def Let_def modelFadePctOf_measured)
     (simp add: measured_def)

text \<open>
  Claim C5. For every payload that carries a nominal capacity (in particular a valid
  one, \<open>nominalCapacity > 0\<close>), \<^verbatim>\<open>calculateCalibrationFactor\<close> returns a number in
  the closed interval \<open>[0.1, 3.0]\<close>; when the model fade is below \<open>0.1\<close> the result is
  \<open>1.0\<close> and no quotient by the model fade is formed.
\<close>

theorem calibrate_bounded:
  assumes "nominalCapacity p = Some nom" and "0 < nom"
  shows "\<exists>f. calculateCalibrationFactor p = Num f \<and> 0.1 \<le> f \<and> f \<le> 3.0
           \<and> (modelFadePctOf p < 0.1 \<longrightarrow> f = 1.0)"
proof -
  from assms(1) have "nominalCapacity p \<noteq> None" by simp
  from calibration_range [OF this] obtain f
    where f: "calculateCalibrationFactor p = Num f" "0.1 \<le> f" "f \<le> 3" by blast
  have "modelFadePctOf p < 0.1 \<longrightarrow> calculateCalibrationFactor p = Num 1.0"
    by (simp add: calculateCalibrationFactor_def Let_def)
  with f show ?thesis by auto
qed

theorem calibrate_bounded_witness:
  "nominalCapacity (measured 70) = Some 100 \<and> (0::real) < 100
   \<and> calculateCalibrationFactor (measured 70) = Num 2
   \<and> nominalCapacity (measured 10) = Some 100
   \<and> calculateCalibrationFactor (measured 10) = Num 3"
proof -
  have n: "nominalCapacity (measured c) = Some 100" for c
    by (simp add: measured_def)
  have pos: "(0::real) < 100" by simp
  have a: "calculateCalibrationFactor (measured 70) = Num 2"
    by (simp add: calibration_measured)
  have b: "calculateCalibrationFactor (measured 10) = Num 3"
    by (simp add: calibration_measured)
  from calibrate_bounded [OF n [of 70] pos] calibrate_bounded [OF n [of 10] pos] a b n
  show ?thesis by simp
qed

text \<open>
  Claim C6. When \<^verbatim>\<open>currentCapacity\<close> is absent or \<^verbatim>\<open>chargeCycles\<close> is below \<open>50\<close>,
  \<^verbatim>\<open>calculateCalibrationFactor\<close> returns exactly \<open>1.0\<close>.
\<close>

theorem calibrate_noop:
  assumes "currentCapacity p = None \<or> (\<exists>c. chargeCycles p = Some c \<and> c < 50)"
  shows "calculateCalibrationFactor p = Num 1.0"
  using assms by (auto simp: calculateCalibrationFactor_def)

theorem calibrate_noop_witness:
  "(\<exists>c. chargeCycles (measured 70 \<lparr> chargeCycles := Some 49 \<rparr>) = Some c \<and> c < 50)
   \<and> calculateCalibrationFactor (measured 70 \<lparr> chargeCycles := Some 49 \<rparr>) = Num 1.0
   \<and> currentCapacity (measured 70 \<lparr> currentCapacity := None \<rparr>) = None
   \<and> calculateCalibrationFactor (measured 70 \<lparr> currentCapacity := None \<rparr>) = Num 1.0"
proof -
  have a: "\<exists>c. chargeCycles (measured 70 \<lparr> chargeCycles := Some 49 \<rparr>) = Some c \<and> c < 50"
    by simp
  have b: "currentCapacity (measured 70 \<lparr> currentCapacity := None \<rparr>) = None"
    by simp
  from calibrate_noop [OF disjI2, OF a] calibrate_noop [OF disjI1, OF b] a b
  show ?thesis by blast
qed

section \<open>A measurement of zero\<close>

lemma defaults_currentCapacity [simp]:
  "chargeCyclesD (p \<lparr> currentCapacity := c \<rparr>) = chargeCyclesD p"
  "avgTemperatureD (p \<lparr> currentCapacity := c \<rparr>) = avgTemperatureD p"
  "nominalCapacityD (p \<lparr> currentCapacity := c \<rparr>) = nominalCapacityD p"
  "dodPctD (p \<lparr> currentCapacity := c \<rparr>) = dodPctD p"
  "cRateD (p \<lparr> currentCapacity := c \<rparr>) = cRateD p"
  "ageYears (p \<lparr> currentCapacity := c \<rparr>) = ageYears p"
  by (simp_all add: chargeCyclesD_def avgTemperatureD_def nominalCapacityD_def dodPctD_def
        cRateD_def ageYears_def split: option.splits)

lemma years_currentCapacity [simp]:
  "years (p \<lparr> currentCapacity := c \<rparr>) = years p"
  by (simp add: years_eq)

lemma cycleFadeFraction_currentCapacity [simp]:
  "cycleFadeFraction (p \<lparr> currentCapacity := c \<rparr>) f = cycleFadeFraction p f"
  by (simp add: cycleFadeFraction_def DoD_factor_def cRateAccel_def)

lemma calendarFadeFraction_currentCapacity [simp]:
  "calendarFadeFraction (p \<lparr> currentCapacity := c \<rparr>) f = calendarFadeFraction p f"
  by (simp add: calendarFadeFraction_def Tk_def)

lemma totalFadePct_currentCapacity [simp]:
  "totalFadePct (p \<lparr> currentCapacity := c \<rparr>) f = totalFadePct p f"
  by (simp add: totalFadePct_def)

lemma computeDegradation_falsy:
  assumes "\<not> truthy (currentCapacity p)"
  shows "computeDegradation p f = computeDegradation (p \<lparr> currentCapacity := None \<rparr>) f"
  using assms
  by (simp add: computeDegradation_def Let_def observedHealthPct_def modelHealthPctOf_def)

lemma loopPoint_currentCapacity:
  "loopPoint (p \<lparr> currentCapacity := c \<rparr>) cf i = loopPoint p cf i"
  by (simp add: loopPoint_def loopPayload_def Let_def totalCyclesOf_def)

lemma endPoint_currentCapacity:
  "endPoint (p \<lparr> currentCapacity := c \<rparr>) cf = endPoint p cf"
  by (simp add: endPoint_def endPayload_def Let_def totalCyclesOf_def)

lemma trendLoop_currentCapacity:
  "trendLoop (p \<lparr> currentCapacity := c \<rparr>) cf i = trendLoop p cf i"
proof (induction p cf i rule: trendLoop.induct)
  case (1 p cf i)
  have t: "totalCyclesOf (p \<lparr> currentCapacity := c \<rparr>) = totalCyclesOf p"
    by (simp add: totalCyclesOf_def)
  show ?case
  proof (cases "i \<le> totalCyclesOf p")
    case True
    with "1.IH" show ?thesis
      by (subst trendLoop.simps, subst (2) trendLoop.simps)
         (simp add: t loopPoint_currentCapacity)
  next
    case False
    then show ?thesis
      by (subst trendLoop.simps, subst (2) trendLoop.simps) (simp add: t)
  qed
qed

lemma buildTrend_falsy:
  assumes "\<not> truthy (currentCapacity p)"
  shows "buildTrend p = buildTrend (p \<lparr> currentCapacity := None \<rparr>)"
proof -
  have "calculateCalibrationFactor p = Num 1"
    "calculateCalibrationFactor (p \<lparr> currentCapacity := None \<rparr>) = Num 1"
    using assms by (simp_all add: calculateCalibrationFactor_def)
  then show ?thesis
    by (simp add: buildTrend_def Let_def trendLoop_currentCapacity endPoint_currentCapacity
          totalCyclesOf_def)
qed

text \<open>
  Claim C9. A supplied \<^verbatim>\<open>currentCapacity\<close> of exactly \<open>0\<close> is treated as an absent
  measurement by each exported function: the calibration factor is \<open>1.0\<close>, the observed
  health of \<^verbatim>\<open>computeDegradation\<close> is the model health, the confidence level is
  \<open>low\<close> whatever the cycle count, and each function returns what it returns for the
  same payload without the measurement.
\<close>

theorem zero_measurement_as_absent:
  assumes "currentCapacity p = Some 0"
  shows "calculateCalibrationFactor p = Num 1.0
       \<and> healthPct (computeDegradation p f) = modelHealthPct (computeDegradation p f)
       \<and> level (getModelConfidence p) = ''low''
       \<and> computeDegradation p f = computeDegradation (p \<lparr> currentCapacity := None \<rparr>) f
       \<and> calculateCalibrationFactor p
           = calculateCalibrationFactor (p \<lparr> currentCapacity := None \<rparr>)
       \<and> getModelConfidence p = getModelConfidence (p \<lparr> currentCapacity := None \<rparr>)
       \<and> buildTrend p = buildTrend (p \<lparr> currentCapacity := None \<rparr>)"
proof -
  from assms have falsy: "\<not> truthy (currentCapacity p)" by simp
  have "calculateCalibrationFactor p = Num 1.0"
    using falsy by (simp add: calculateCalibrationFactor_def)
  moreover have "healthPct (computeDegradation p f) = modelHealthPct (computeDegradation p f)"
    using falsy by (simp add: computeDegradation_def Let_def observedHealthPct_def)
  moreover have "level (getModelConfidence p) = ''low''"
    using falsy by (simp add: getModelConfidence_def confidenceInsufficient_def)
  moreover have "calculateCalibrationFactor (p \<lparr> currentCapacity := None \<rparr>) = Num 1.0"
    by (simp add: calculateCalibrationFactor_def)
  moreover have "getModelConfidence p = getModelConfidence (p \<lparr> currentCapacity := None \<rparr>)"
    using falsy by (simp add: getModelConfidence_def)
  ultimately show ?thesis
    using computeDegradation_falsy [OF falsy] buildTrend_falsy [OF falsy] by simp
qed

text \<open>At \<open>100\<close> cycles and full depth of discharge the model health is \<open>85\<close>, which a
  measurement of \<open>0\<close> leaves in place; the clamped measured ratio would be \<open>0\<close>.\<close>

theorem zero_measurement_as_absent_witness:
  "currentCapacity (measured 0) = Some 0
   \<and> calculateCalibrationFactor (measured 0) = Num 1.0
   \<and> healthPct (computeDegradation (measured 0) 1) = 85
   \<and> level (getModelConfidence (measured 0)) = ''low''"
proof -
  have a: "currentCapacity (measured 0) = Some 0"
    by (simp add: measured_def)
  have m: "modelHealthPct (computeDegradation (measured 0) 1) = 85"
    by (simp add: computeDegradation_def Let_def modelHealthPctOf_def totalFadePct_measured)
  from zero_measurement_as_absent [OF a, of 1]
  have "calculateCalibrationFactor (measured 0) = Num 1.0"
    and "healthPct (computeDegradation (measured 0) 1)
           = modelHealthPct (computeDegradation (measured 0) 1)"
    and "level (getModelConfidence (measured 0)) = ''low''"
    by blast+
  with m a show ?thesis by simp
qed

section \<open>Confidence\<close>

text \<open>
  Claim C7, as stated: whenever \<^verbatim>\<open>currentCapacity\<close> is supplied and \<^verbatim>\<open>chargeCycles\<close>
  is at least \<open>50\<close>, a calibration factor in \<open>[0.8, 1.2]\<close> gives the level \<open>high\<close>. A
  supplied measurement of \<open>0\<close> with \<open>100\<close> cycles has the factor \<open>1.0\<close> and the level
  \<open>low\<close>.
\<close>

theorem confidence_zero_measurement_counterexample:
  "currentCapacity (measured 0) \<noteq> None
   \<and> chargeCycles (measured 0) = Some 100
   \<and> calculateCalibrationFactor (measured 0) = Num 1.0
   \<and> level (getModelConfidence (measured 0)) = ''low''
   \<and> level (getModelConfidence (measured 0)) \<noteq> ''high''"
  by (simp add: measured_def getModelConfidence_def calculateCalibrationFactor_def
        confidenceInsufficient_def)

text \<open>
  Claim C7, amended. \<^verbatim>\<open>getModelConfidence\<close> returns the level \<open>low\<close> with the accuracy
  \<open>\<plusminus>6 months\<close> whenever \<^verbatim>\<open>currentCapacity\<close> is absent or zero, or a supplied
  \<^verbatim>\<open>chargeCycles\<close> is below \<open>50\<close>. Otherwise, with \<open>f\<close> the calibration factor of the
  payload, it returns \<open>high\<close> with \<open>\<plusminus>2 months\<close> when \<open>f\<close> is in \<open>[0.8, 1.2]\<close>, \<open>medium\<close>
  with \<open>\<plusminus>4 months\<close> when \<open>f\<close> is in \<open>[0.5, 2.0]\<close> but not in \<open>[0.8, 1.2]\<close>, and \<open>low\<close>
  with \<open>\<plusminus>6 months\<close> otherwise.
\<close>

theorem getModelConfidence_mapping:
  "(\<not> truthy (currentCapacity p) \<or> js_lt (chargeCycles p) 50 \<longrightarrow>
      level (getModelConfidence p) = ''low''
      \<and> accuracy (getModelConfidence p) = CHR 0xB1 # ''6 months'')
   \<and> (truthy (currentCapacity p) \<and> \<not> js_lt (chargeCycles p) 50
        \<and> calculateCalibrationFactor p = Num f \<longrightarrow>
      (0.8 \<le> f \<and> f \<le> 1.2 \<longrightarrow>
         level (getModelConfidence p) = ''high''
         \<and> accuracy (getModelConfidence p) = CHR 0xB1 # ''2 months'')
      \<and> (0.5 \<le> f \<and> f \<le> 2.0 \<and> \<not> (0.8 \<le> f \<and> f \<le> 1.2) \<longrightarrow>
         level (getModelConfidence p) = ''medium''
         \<and> accuracy (getModelConfidence p) = CHR 0xB1 # ''4 months'')
      \<and> (\<not> (0.5 \<le> f \<and> f \<le> 2.0) \<longrightarrow>
         level (getModelConfidence p) = ''low''
         \<and> accuracy (getModelConfidence p) = CHR 0xB1 # ''6 months''))"
proof (intro conjI impI)
  assume "\<not> truthy (currentCapacity p) \<or> js_lt (chargeCycles p) 50"
  then have "getModelConfidence p = confidenceInsufficient"
    by (simp add: getModelConfidence_def)
  then show "level (getModelConfidence p) = ''low''"
    and "accuracy (getModelConfidence p) = CHR 0xB1 # ''6 months''"
    by (simp_all add: confidenceInsufficient_def)
next
  assume a: "truthy (currentCapacity p) \<and> \<not> js_lt (chargeCycles p) 50
        \<and> calculateCalibrationFactor p = Num f"
  {
    assume "0.8 \<le> f \<and> f \<le> 1.2"
    with a have "getModelConfidence p = confidenceHigh"
      by (simp add: getModelConfidence_def)
    then show "level (getModelConfidence p) = ''high''"
      and "accuracy (getModelConfidence p) = CHR 0xB1 # ''2 months''"
      by (simp_all add: confidenceHigh_def)
  }
  {
    assume "0.5 \<le> f \<and> f \<le> 2.0 \<and> \<not> (0.8 \<le> f \<and> f \<le> 1.2)"
    with a have "getModelConfidence p = confidenceMedium"
      by (auto simp: getModelConfidence_def)
    then show "level (getModelConfidence p) = ''medium''"
      and "accuracy (getModelConfidence p) = CHR 0xB1 # ''4 months''"
      by (simp_all add: confidenceMedium_def)
  }
  {
    assume "\<not> (0.5 \<le> f \<and> f \<le> 2.0)"
    with a have "getModelConfidence p = confidenceDeviation"
      by (auto simp: getModelConfidence_def)
    then show "level (getModelConfidence p) = ''low''"
      and "accuracy (getModelConfidence p) = CHR 0xB1 # ''6 months''"
      by (simp_all add: confidenceDeviation_def)
  }
qed

text \<open>A measured \<open>85\<close> against a model fade of \<open>15\<close> gives the factor \<open>1.0\<close> and \<open>high\<close>; a
  measured \<open>95.5\<close> gives the factor \<open>0.3\<close> and \<open>low\<close>; a measured \<open>91\<close> gives \<open>0.6\<close> and
  \<open>medium\<close>; without a measurement the level is \<open>low\<close>.\<close>

theorem getModelConfidence_mapping_witness:
  "calculateCalibrationFactor (measured 85) = Num 1.0
   \<and> level (getModelConfidence (measured 85)) = ''high''
   \<and> calculateCalibrationFactor (measured 95.5) = Num 0.3
   \<and> level (getModelConfidence (measured 95.5)) = ''low''
   \<and> calculateCalibrationFactor (measured 91) = Num 0.6
   \<and> level (getModelConfidence (measured 91)) = ''medium''
   \<and> \<not> truthy (currentCapacity emptyPayload)
   \<and> level (getModelConfidence emptyPayload) = ''low''"
proof -
  have t: "truthy (currentCapacity (measured c)) \<and> \<not> js_lt (chargeCycles (measured c)) 50"
    if "c \<noteq> 0" for c
    using that by (simp add: measured_def)
  have f1: "calculateCalibrationFactor (measured 85) = Num 1.0"
    by (simp add: calibration_measured)
  have f2: "calculateCalibrationFactor (measured 95.5) = Num 0.3"
    by (simp add: calibration_measured)
  have f3: "calculateCalibrationFactor (measured 91) = Num 0.6"
    by (simp add: calibration_measured)
  have e: "\<not> truthy (currentCapacity emptyPayload)"
    by (simp add: emptyPayload_def)
  from getModelConfidence_mapping [of "measured 85" 1] t [of 85] f1
  have "level (getModelConfidence (measured 85)) = ''high''" by simp
  moreover from getModelConfidence_mapping [of "measured 95.5" "0.3"] t [of "95.5"] f2
  have "level (getModelConfidence (measured 95.5)) = ''low''" by simp
  moreover from getModelConfidence_mapping [of "measured 91" "0.6"] t [of 91] f3
  have "level (getModelConfidence (measured 91)) = ''medium''" by simp
  moreover from getModelConfidence_mapping [of emptyPayload 1] e
  have "level (getModelConfidence emptyPayload) = ''low''" by simp
  ultimately show ?thesis using f1 f2 f3 e by simp
qed

section \<open>Observed health\<close>

text \<open>
  Claim C4, as stated: whenever \<^verbatim>\<open>currentCapacity\<close> is supplied, the observed health is
  the clamped measured ratio. For a valid payload with the supplied measurement \<open>0\<close> the
  observed health is the model health \<open>85\<close>, while the clamped ratio is \<open>0\<close>.
\<close>

theorem observed_zero_measurement_counterexample:
  "nominalCapacity (measured 0) = Some 100
   \<and> currentCapacity (measured 0) = Some 0
   \<and> healthPct (computeDegradation (measured 0) 1) = 85
   \<and> clamp (0 / 100 * 100) 0 100 = 0
   \<and> healthPct (computeDegradation (measured 0) 1) \<noteq> clamp (0 / 100 * 100) 0 100"
proof -
  have "healthPct (computeDegradation (measured 0) 1) = 85"
    by (simp add: computeDegradation_def Let_def observedHealthPct_def modelHealthPctOf_def
          totalFadePct_measured)
       (simp add: measured_def)
  then show ?thesis
    by (simp add: clamp_def) (simp add: measured_def)
qed

text \<open>
  Claim C4, amended. For every payload with \<open>nominalCapacity > 0\<close>, the observed health
  returned by \<^verbatim>\<open>computeDegradation\<close> equals the model health when
  \<^verbatim>\<open>currentCapacity\<close> is not supplied or is \<open>0\<close>, and equals
  \<open>clamp(currentCapacity / nominalCapacity * 100, 0, 100)\<close> whenever a non-zero
  \<^verbatim>\<open>currentCapacity\<close> is supplied.
\<close>

theorem observedHealthPct_cases:
  assumes "nominalCapacity p = Some nom" and "0 < nom"
  shows "(currentCapacity p = None \<or> currentCapacity p = Some 0 \<longrightarrow>
            healthPct (computeDegradation p f) = modelHealthPct (computeDegradation p f))
       \<and> (\<forall>cur. currentCapacity p = Some cur \<and> cur \<noteq> 0 \<longrightarrow>
            healthPct (computeDegradation p f) = clamp (cur / nom * 100) 0 100)"
  using assms
  by (auto simp: computeDegradation_def Let_def observedHealthPct_def clamp_def
        nominalCapacityD_def)

theorem observedHealthPct_cases_witness:
  "nominalCapacity scenario = Some 100 \<and> (0::real) < 100
   \<and> currentCapacity scenario = Some 84
   \<and> healthPct (computeDegradation scenario 1) = 84
   \<and> currentCapacity (measured 0) = Some 0
   \<and> healthPct (computeDegradation (measured 0) 1)
        = modelHealthPct (computeDegradation (measured 0) 1)"
proof -
  have n: "nominalCapacity scenario = Some 100" and c: "currentCapacity scenario = Some 84"
    by (simp_all add: scenario_def)
  have n0: "nominalCapacity (measured 0) = Some 100"
    and c0: "currentCapacity (measured 0) = Some 0"
    by (simp_all add: measured_def)
  have pos: "(0::real) < 100" by simp
  from observedHealthPct_cases [OF n pos, of 1] c
  have "healthPct (computeDegradation scenario 1) = clamp (84 / 100 * 100) 0 100"
    by simp
  moreover from observedHealthPct_cases [OF n0 pos, of 1] c0
  have "healthPct (computeDegradation (measured 0) 1)
          = modelHealthPct (computeDegradation (measured 0) 1)"
    by simp
  ultimately show ?thesis using n c c0 by (simp add: clamp_def)
qed

section \<open>The guard on the nominal capacity\<close>

lemma buildTrend_returns: "\<exists>pts. buildTrend p = Inr pts"
  by (simp add: buildTrend_def Let_def trendLoop_ne)

text \<open>
  Claim C2, as stated: with a nominal capacity of zero \<^verbatim>\<open>evaluateFade\<close> raises and
  returns nothing. \<^verbatim>\<open>computeDegradation\<close> with \<open>nominalCapacity = 0\<close> and nothing else
  returns a complete result.
\<close>

theorem evaluateFade_zero_nominal_counterexample:
  "evaluateFade (emptyPayload \<lparr> nominalCapacity := Some 0 \<rparr>) 1
     = Inr \<lparr> healthPct = 100, soh = 100, eolPct = 70, estimatedRUIMonths = 600,
             modelHealthPct = 100,
             components = \<lparr> cycleFadePct = 0, calendarFadePct = 0 \<rparr> \<rparr>"
  by (simp add: evaluateFade_def computeDegradation_def Let_def observedHealthPct_def
        modelHealthPctOf_def totalFadePct_def cycleFadeFraction_def calendarFadeFraction_def
        chargeCyclesD_def years_eq ageYears_def emptyPayload_def toFixed2_def)

text \<open>
  Claim C2, amended. \<^verbatim>\<open>computeDegradation\<close> itself never raises: it returns a result
  for every payload and factor (an absent nominal capacity is read as \<open>100\<close>). The
  precondition is enforced by its caller \<^verbatim>\<open>analyzeBatteryHealth\<close>, which raises
  \<open>nominalCapacity must be a positive number\<close> and returns no result when
  \<^verbatim>\<open>nominalCapacity\<close> is missing, zero or negative, and does not raise for any payload
  with \<open>nominalCapacity > 0\<close>.
\<close>

theorem nominalCapacity_guard:
  "(\<exists>r. evaluateFade p f = Inr r)
   \<and> (nominalCapacity p = None \<or> (\<exists>nom. nominalCapacity p = Some nom \<and> nom \<le> 0) \<longrightarrow>
        analyzeBatteryHealth p
          = Inl (Error ''Battery analysis failed: nominalCapacity must be a positive number''))
   \<and> ((\<exists>nom. nominalCapacity p = Some nom \<and> 0 < nom) \<longrightarrow>
        (\<exists>r. analyzeBatteryHealth p = Inr r
              \<and> results_degradation r = computeDegradation p 1.0))"
proof (intro conjI impI)
  show "\<exists>r. evaluateFade p f = Inr r"
    by (simp add: evaluateFade_def)
next
  assume "nominalCapacity p = None \<or> (\<exists>nom. nominalCapacity p = Some nom \<and> nom \<le> 0)"
  then have "nominalCapacityRejected (nominalCapacity p)" by auto
  then show "analyzeBatteryHealth p
          = Inl (Error ''Battery analysis failed: nominalCapacity must be a positive number'')"
    by (simp add: analyzeBatteryHealth_def analyzeBody_def)
next
  assume "\<exists>nom. nominalCapacity p = Some nom \<and> 0 < nom"
  then have ok: "\<not> nominalCapacityRejected (nominalCapacity p)" by auto
  obtain pts where "buildTrend p = Inr pts"
    using buildTrend_returns by blast
  with ok show "\<exists>r. analyzeBatteryHealth p = Inr r
              \<and> results_degradation r = computeDegradation p 1.0"
    by (simp add: analyzeBatteryHealth_def analyzeBody_def Let_def)
qed

theorem nominalCapacity_guard_witness:
  "nominalCapacity emptyPayload = None
   \<and> analyzeBatteryHealth emptyPayload
       = Inl (Error ''Battery analysis failed: nominalCapacity must be a positive number'')
   \<and> nominalCapacity (emptyPayload \<lparr> nominalCapacity := Some 0 \<rparr>) = Some 0
   \<and> analyzeBatteryHealth (emptyPayload \<lparr> nominalCapacity := Some 0 \<rparr>)
       = Inl (Error ''Battery analysis failed: nominalCapacity must be a positive number'')
   \<and> nominalCapacity scenario = Some 100
   \<and> (\<exists>r. analyzeBatteryHealth scenario = Inr r)"
proof -
  have a: "nominalCapacity emptyPayload = None"
    by (simp add: emptyPayload_def)
  have b: "nominalCapacity (emptyPayload \<lparr> nominalCapacity := Some 0 \<rparr>) = Some 0"
    by simp
  have c: "nominalCapacity scenario = Some 100"
    by (simp add: scenario_def)
  from nominalCapacity_guard [of emptyPayload 1] a
  have "analyzeBatteryHealth emptyPayload
       = Inl (Error ''Battery analysis failed: nominalCapacity must be a positive number'')"
    by simp
  moreover from nominalCapacity_guard [of "emptyPayload \<lparr> nominalCapacity := Some 0 \<rparr>" 1] b
  have "analyzeBatteryHealth (emptyPayload \<lparr> nominalCapacity := Some 0 \<rparr>)
       = Inl (Error ''Battery analysis failed: nominalCapacity must be a positive number'')"
    by simp
  moreover from nominalCapacity_guard [of scenario 1] c
  have "\<exists>r. analyzeBatteryHealth scenario = Inr r"
    by auto
  ultimately show ?thesis using a b c by simp
qed

section \<open>The fade formulas\<close>

text \<open>
  Claim C3, as stated: the returned cycle fade is the formula of the specification times
  \<open>100\<close>. After one full-depth cycle at a charge rate of \<open>1.25\<close> the formula gives
  \<open>1.6875\<close> percent, and the component returned is \<open>1.69\<close>.
\<close>

theorem reported_fade_rounded_counterexample:
  "cycleFadePct (components (computeDegradation
       (emptyPayload \<lparr> chargeCycles := Some 1, nominalCapacity := Some 100,
                       dodPct := Some 100, cRate := Some 1.25 \<rparr>) 1)) = 1.69
   \<and> spec_cycleFade 1 100 1 1.25 * 100 = 1.6875"
  by (simp add: computeDegradation_def Let_def cycleFadeFraction_def DoD_factor_def
        cRateAccel_def dodPctD_def chargeCyclesD_def cRateD_def emptyPayload_def
        toFixed2_def spec_cycleFade_def round_def)


text \<open>
  Claim C3, amended. For every payload and calibration factor \<open>f\<close>, the cycle fade
  fraction computed by \<^verbatim>\<open>computeDegradation\<close> is
  \<open>0.015 f (dodPct/100)^0.6 sqrt(max(chargeCycles, 0)) (1 + max(0, cRate - 1) 0.5)\<close> when
  \<open>dodPct \<ge> 0\<close>, and the calendar fade fraction is
  \<open>0.01 f exp(-25000 / (8.314 (avgTemperature + 273.15))) years^0.7\<close> when \<open>years > 0\<close> and
  \<open>0\<close> when \<open>years = 0\<close> (for \<open>avgTemperature + 273.15 \<noteq> 0\<close>). The two components returned
  are these fractions times \<open>100\<close>, rounded to two decimals; the model health is
  \<open>max(0, 100 - the sum of the two unrounded percentages)\<close>. With no cycles and no
  calendar age the total fade is \<open>0\<close> and the model health is \<open>100\<close>.
\<close>

theorem fade_formulas:
  "(0 \<le> dodPctD p \<longrightarrow>
      cycleFadeFraction p f = spec_cycleFade f (dodPctD p) (chargeCyclesD p) (cRateD p))
   \<and> (avgTemperatureD p + 273.15 \<noteq> 0 \<longrightarrow>
      calendarFadeFraction p f = spec_calendarFade f (avgTemperatureD p) (years p))
   \<and> cycleFadePct (components (computeDegradation p f))
        = toFixed2 (cycleFadeFraction p f * 100)
   \<and> calendarFadePct (components (computeDegradation p f))
        = toFixed2 (calendarFadeFraction p f * 100)
   \<and> modelHealthPct (computeDegradation p f)
        = max 0 (100 - (cycleFadeFraction p f * 100 + calendarFadeFraction p f * 100))
   \<and> (chargeCyclesD p = 0 \<and> years p = 0 \<longrightarrow>
        totalFadePct p f = 0 \<and> modelHealthPct (computeDegradation p f) = 100)"
proof (intro conjI impI)
  assume "0 \<le> dodPctD p"
  then show "cycleFadeFraction p f = spec_cycleFade f (dodPctD p) (chargeCyclesD p) (cRateD p)"
    by (simp add: cycleFadeFraction_def spec_cycleFade_def DoD_factor_def cRateAccel_def
          max_def)
next
  assume "avgTemperatureD p + 273.15 \<noteq> 0"
  then show "calendarFadeFraction p f = spec_calendarFade f (avgTemperatureD p) (years p)"
    by (simp add: calendarFadeFraction_def spec_calendarFade_def arrhenius_def Tk_def R_def)
next
  show "cycleFadePct (components (computeDegradation p f))
        = toFixed2 (cycleFadeFraction p f * 100)"
    by (simp add: computeDegradation_def Let_def)
next
  show "calendarFadePct (components (computeDegradation p f))
        = toFixed2 (calendarFadeFraction p f * 100)"
    by (simp add: computeDegradation_def Let_def)
next
  show "modelHealthPct (computeDegradation p f)
        = max 0 (100 - (cycleFadeFraction p f * 100 + calendarFadeFraction p f * 100))"
    by (simp add: computeDegradation_def Let_def modelHealthPctOf_def totalFadePct_def
          algebra_simps)
next
  assume z: "chargeCyclesD p = 0 \<and> years p = 0"
  then show "totalFadePct p f = 0"
    by (simp add: totalFadePct_zero)
  with z show "modelHealthPct (computeDegradation p f) = 100"
    by (simp add: computeDegradation_def Let_def modelHealthPctOf_def)
qed

theorem fade_formulas_witness:
  "(0::real) \<le> dodPctD scenario
   \<and> cycleFadeFraction scenario 1 = spec_cycleFade 1 80 550 0.8
   \<and> avgTemperatureD scenario + 273.15 \<noteq> 0
   \<and> calendarFadeFraction scenario 1 = spec_calendarFade 1 32 2
   \<and> chargeCyclesD emptyPayload = 0 \<and> years emptyPayload = 0
   \<and> totalFadePct emptyPayload 1 = 0
   \<and> modelHealthPct (computeDegradation emptyPayload 1) = 100"
proof -
  have d: "dodPctD scenario = 80" "chargeCyclesD scenario = 550" "cRateD scenario = 0.8"
    "avgTemperatureD scenario = 32" "years scenario = 2"
    by (simp_all add: scenario_def dodPctD_def chargeCyclesD_def cRateD_def
          avgTemperatureD_def years_eq ageYears_def)
  have e: "chargeCyclesD emptyPayload = 0" "years emptyPayload = 0"
    by (simp_all add: emptyPayload_def chargeCyclesD_def years_eq ageYears_def)
  from fade_formulas [of scenario 1] d
  have "cycleFadeFraction scenario 1 = spec_cycleFade 1 80 550 0.8"
    and "calendarFadeFraction scenario 1 = spec_calendarFade 1 32 2"
    by simp_all
  moreover from fade_formulas [of emptyPayload 1] e
  have "totalFadePct emptyPayload 1 = 0"
    and "modelHealthPct (computeDegradation emptyPayload 1) = 100"
    by simp_all
  ultimately show ?thesis using d e by simp
qed

section \<open>The scenario\<close>

lemma totalFadePct_linear: "totalFadePct p f = f * totalFadePct p 1"
  by (simp add: totalFadePct_def cycleFadeFraction_def calendarFadeFraction_def algebra_simps)

lemma sqrt_550_bounds: "23 \<le> sqrt 550" "sqrt 550 \<le> 24"
  by (rule real_le_rsqrt, simp) (rule real_le_lsqrt, simp_all)

lemma dod_80_bounds: "0.8 \<le> (0.8::real) powr 0.6" "(0.8::real) powr 0.6 \<le> 1"
proof -
  have "(0.8::real) powr 1 \<le> 0.8 powr 0.6"
    by (rule powr_mono') simp_all
  then show "0.8 \<le> (0.8::real) powr 0.6" by simp
  show "(0.8::real) powr 0.6 \<le> 1"
    by (rule powr_le1) simp_all
qed

lemma calendar_scenario_bounds:
  "0 \<le> exp (- 25000 / (8.314 * (32 + 273.15))) * (2::real) powr 0.7"
  "exp (- 25000 / (8.314 * (32 + 273.15))) * (2::real) powr 0.7 \<le> 2"
proof -
  let ?a = "exp (- 25000 / (8.314 * (32 + 273.15))) :: real"
  have a: "0 \<le> ?a" "?a \<le> 1" by simp_all
  have "(2::real) powr 0.7 \<le> 2 powr 1" by (rule powr_mono) simp_all
  then have b: "(2::real) powr 0.7 \<le> 2" "0 \<le> (2::real) powr 0.7" by simp_all
  show "0 \<le> ?a * (2::real) powr 0.7" using a b by simp
  have "?a * (2::real) powr 0.7 \<le> 1 * 2"
    using a b by (intro mult_mono) simp_all
  then show "?a * (2::real) powr 0.7 \<le> 2" by simp
qed

lemma totalFadePct_scenario_eq:
  "totalFadePct scenario 1
     = 1.5 * ((0.8::real) powr 0.6 * sqrt 550)
       + exp (- 25000 / (8.314 * (32 + 273.15))) * (2::real) powr 0.7"
  by (simp add: totalFadePct_def cycleFadeFraction_def calendarFadeFraction_def
        DoD_factor_def cRateAccel_def Tk_def years_eq ageYears_def arrhenius_def R_def
        chargeCyclesD_def avgTemperatureD_def dodPctD_def cRateD_def scenario_def)

lemma totalFadePct_scenario_bounds:
  "27 \<le> totalFadePct scenario 1" "totalFadePct scenario 1 \<le> 38"
proof -
  define x where "x = (0.8::real) powr 0.6 * sqrt 550"
  define y where "y = exp (- 25000 / (8.314 * (32 + 273.15))) * (2::real) powr 0.7"
  have "0.8 * 23 \<le> (0.8::real) powr 0.6 * sqrt 550"
    using dod_80_bounds sqrt_550_bounds by (intro mult_mono) simp_all
  then have lo: "18.4 \<le> x" by (simp add: x_def)
  have "(0.8::real) powr 0.6 * sqrt 550 \<le> 1 * 24"
    using dod_80_bounds sqrt_550_bounds by (intro mult_mono) simp_all
  then have hi: "x \<le> 24" by (simp add: x_def)
  have y: "0 \<le> y" "y \<le> 2"
    unfolding y_def by (rule calendar_scenario_bounds)+
  have eq: "totalFadePct scenario 1 = 1.5 * x + y"
    unfolding x_def y_def by (rule totalFadePct_scenario_eq)
  show "27 \<le> totalFadePct scenario 1" using lo y unfolding eq by linarith
  show "totalFadePct scenario 1 \<le> 38" using hi y unfolding eq by linarith
qed

lemma calibration_scenario:
  "calculateCalibrationFactor scenario = Num (16 / totalFadePct scenario 1)"
proof -
  let ?M = "totalFadePct scenario 1"
  have M: "27 \<le> ?M" "?M \<le> 38" by (rule totalFadePct_scenario_bounds)+
  have mf: "modelFadePctOf scenario = ?M"
    using M by (simp add: modelFadePctOf_eq)
  have "16 / ?M \<le> 16 / 27" using M by (simp add: field_simps)
  moreover have "16 / 38 \<le> 16 / ?M" using M by (simp add: field_simps)
  ultimately have cl: "max 0.1 (min 3.0 (16 / ?M)) = 16 / ?M"
    by (simp add: max_def min_def)
  have "calculateCalibrationFactor scenario
          = Num (max 0.1 (min 3.0 ((100 - 84 / 100 * 100) / ?M)))"
    using M by (simp add: calculateCalibrationFactor_def Let_def mf)
               (simp add: scenario_def)
  then show ?thesis using cl by simp
qed


lemma trendLoop_multiples:
  "pt \<in> set (trendLoop p cf i) \<Longrightarrow>
     \<exists>k::nat. cycle pt = i + real k * step (totalCyclesOf p)"
proof (induction p cf i rule: trendLoop.induct)
  case (1 p cf i)
  show ?case
  proof (cases "i \<le> totalCyclesOf p")
    case True
    from "1.prems" True
    have "pt = loopPoint p cf i \<or> pt \<in> set (trendLoop p cf (i + step (totalCyclesOf p)))"
      by (subst (asm) trendLoop.simps) simp
    then show ?thesis
    proof
      assume "pt = loopPoint p cf i"
      then have "cycle pt = i + real 0 * step (totalCyclesOf p)"
        by (simp add: cycle_loopPoint)
      then show ?thesis by blast
    next
      assume "pt \<in> set (trendLoop p cf (i + step (totalCyclesOf p)))"
      from "1.IH" [OF True this] obtain k :: nat
        where "cycle pt = i + step (totalCyclesOf p) + real k * step (totalCyclesOf p)"
        by blast
      then have "cycle pt = i + real (Suc k) * step (totalCyclesOf p)"
        by (simp add: algebra_simps)
      then show ?thesis by blast
    qed
  next
    case False
    with "1.prems" show ?thesis by (subst (asm) trendLoop.simps) simp
  qed
qed

lemma totals_scenario: "totalCyclesOf scenario = 550" "step 550 = 27"
  "nominalCapacityD scenario = 100" "ageYears scenario = 2"
  by (simp_all add: totalCyclesOf_def chargeCyclesD_def scenario_def step_def Let_def
        nominalCapacityD_def ageYears_def)

lemma toFixed2_84: "toFixed2 84 = 84"
  by (simp add: toFixed2_def)

lemma endPoint_scenario:
  "endPoint scenario (Num (16 / totalFadePct scenario 1))
     = \<lparr> cycle = 550, point_healthPct = Num 84, capacity = Num 84 \<rparr>"
proof -
  let ?M = "totalFadePct scenario 1"
  let ?q = "scenario \<lparr> currentCapacity := None, chargeCycles := Some 550,
                        calendarAgeYears := Some 2 \<rparr>"
  have M: "27 \<le> ?M" by (rule totalFadePct_scenario_bounds)
  have "totalFadePct ?q 1 = ?M"
    by (simp add: totalFadePct_def cycleFadeFraction_def calendarFadeFraction_def
        DoD_factor_def cRateAccel_def Tk_def years_eq ageYears_def
        chargeCyclesD_def avgTemperatureD_def dodPctD_def cRateD_def scenario_def)
  then have "totalFadePct ?q (16 / ?M) = 16 / ?M * ?M"
    by (subst totalFadePct_linear) simp
  also have "\<dots> = 16" using M by simp
  finally have "healthPct (computeDegradation ?q (16 / ?M)) = 84"
    by (simp add: healthPct_no_measurement)
  then show ?thesis
    by (simp add: endPoint_def endPayload_def mkPoint_def Let_def totals_scenario toFixed2_84)
qed

text \<open>
  Claim C8. For the scenario payload (capacity \<open>84\<close> of \<open>100\<close> after \<open>550\<close> cycles at
  \<open>32\<close> degrees, depth of discharge \<open>80\<close>, rate \<open>0.8\<close>, \<open>24\<close> months),
  \<^verbatim>\<open>computeDegradation\<close> returns the observed health \<open>84\<close>, and \<^verbatim>\<open>buildTrend\<close>
  returns a trend whose first point is \<open>{cycle: 0, healthPct: 100, capacity: 100}\<close> and
  whose last point is \<open>{cycle: 550, healthPct: 84, capacity: 84}\<close>.
\<close>

theorem scenario_result:
  "healthPct (computeDegradation scenario 1.0) = 84
   \<and> (\<exists>pts. buildTrend scenario = Inr pts
         \<and> hd pts = \<lparr> cycle = 0, point_healthPct = Num 100, capacity = Num 100 \<rparr>
         \<and> last pts = \<lparr> cycle = 550, point_healthPct = Num 84, capacity = Num 84 \<rparr>)"
proof -
  define f where "f = 16 / totalFadePct scenario 1"
  define points where "points = trendLoop scenario (Num f) 0"
  have cf: "calculateCalibrationFactor scenario = Num f"
    by (simp add: f_def calibration_scenario)
  have ne: "points \<noteq> []"
    by (simp add: points_def trendLoop_ne)
  have "last points \<in> set points" using ne by simp
  then obtain k :: nat where k: "cycle (last points) = real k * 27"
    using trendLoop_multiples [of "last points" scenario "Num f" 0]
    by (auto simp: points_def totals_scenario)
  have "k * 27 \<noteq> 550" by presburger
  then have "real (k * 27) \<noteq> real 550" by (simp only: of_nat_eq_iff not_False_eq_True)
  then have "cycle (last points) \<noteq> 550" using k by simp
  moreover have "cycle (last points) \<le> 550"
    using trendLoop_bounds [of "last points" scenario "Num f" 0] ne
    by (simp add: points_def totals_scenario)
  ultimately have lt: "cycle (last points) < 550" by simp
  have bt: "buildTrend scenario = Inr (points @ [endPoint scenario (Num f)])"
    using ne lt by (simp add: buildTrend_def Let_def cf points_def totals_scenario)
  have "hd (points @ [endPoint scenario (Num f)])
          = \<lparr> cycle = 0, point_healthPct = Num 100, capacity = Num 100 \<rparr>"
    using ne by (simp add: points_def hd_trendLoop loopPoint_0 totals_scenario toFixed2_100)
  moreover have "last (points @ [endPoint scenario (Num f)])
          = \<lparr> cycle = 550, point_healthPct = Num 84, capacity = Num 84 \<rparr>"
    by (simp add: f_def endPoint_scenario)
  moreover have "healthPct (computeDegradation scenario 1.0) = 84"
    by (simp add: computeDegradation_def Let_def observedHealthPct_def nominalCapacityD_def
          scenario_def)
  ultimately show ?thesis using bt by simp
qed

section \<open>Monotonicity of the trend\<close>

lemma toFixed2_mono: "x \<le> y \<Longrightarrow> toFixed2 x \<le> toFixed2 y"
proof -
  assume xy: "x \<le> y"
  have r: "round (a * 100) \<le> round (b * 100)" if "a \<le> b" for a b :: real
    using that by (intro round_mono) simp
  have nn: "0 \<le> round (b * 100)" if "0 \<le> b" for b :: real
    using that round_mono [of 0 "b * 100"] by simp
  show ?thesis
  proof (cases "x < 0")
    case xneg: True
    show ?thesis
    proof (cases "y < 0")
      case True
      have "round (- y * 100) \<le> round (- x * 100)" using xy by (intro r) simp
      then show ?thesis using xneg True
        by (simp add: toFixed2_def divide_right_mono)
    next
      case False
      have "0 \<le> round (- x * 100)" using xneg by (intro nn) simp
      moreover have "0 \<le> round (y * 100)" using False by (intro nn) simp
      ultimately have "- (real_of_int (round (- x * 100)) / 100) \<le> 0"
        and "0 \<le> real_of_int (round (y * 100)) / 100"
        by simp_all
      then show ?thesis using xneg False by (simp add: toFixed2_def)
    qed
  next
    case False
    then have "\<not> y < 0" using xy by simp
    moreover have "round (x * 100) \<le> round (y * 100)" using xy by (rule r)
    ultimately show ?thesis using False
      by (simp add: toFixed2_def divide_right_mono)
  qed
qed

lemma arrhenius_nonneg: "0 \<le> arrhenius T Ea"
  by (simp add: arrhenius_def)

lemma cRateAccel_pos: "0 < cRateAccel p"
  by (auto simp: cRateAccel_def intro: add_pos_nonneg)

lemma cycleFadeFraction_mono:
  assumes "0 \<le> f" and "dodPctD q1 = dodPctD q2" and "cRateD q1 = cRateD q2"
    and "max (chargeCyclesD q1) 0 \<le> max (chargeCyclesD q2) 0"
  shows "cycleFadeFraction q1 f \<le> cycleFadeFraction q2 f"
proof -
  have d: "DoD_factor q1 = DoD_factor q2" and a: "cRateAccel q1 = cRateAccel q2"
    using assms by (simp_all add: DoD_factor_def cRateAccel_def)
  have s: "sqrt (max (chargeCyclesD q1) 0) \<le> sqrt (max (chargeCyclesD q2) 0)"
    using assms(4) by simp
  have c: "0 \<le> 0.015 * f * DoD_factor q2"
    using assms(1) by (simp add: DoD_factor_def)
  have "0.015 * f * DoD_factor q2 * sqrt (max (chargeCyclesD q1) 0)
          \<le> 0.015 * f * DoD_factor q2 * sqrt (max (chargeCyclesD q2) 0)"
    using s c by (rule mult_left_mono)
  then have "0.015 * f * DoD_factor q2 * sqrt (max (chargeCyclesD q1) 0) * cRateAccel q2
          \<le> 0.015 * f * DoD_factor q2 * sqrt (max (chargeCyclesD q2) 0) * cRateAccel q2"
    using cRateAccel_pos [of q2] by (intro mult_right_mono) simp_all
  then show ?thesis
    by (simp only: cycleFadeFraction_def d a)
qed

lemma calendarFadeFraction_nonneg: "0 \<le> f \<Longrightarrow> 0 \<le> calendarFadeFraction q f"
  by (simp add: calendarFadeFraction_def arrhenius_nonneg)

lemma calendarFadeFraction_mono:
  assumes "0 \<le> f" and "avgTemperatureD q1 = avgTemperatureD q2"
    and "years q1 \<le> years q2"
  shows "calendarFadeFraction q1 f \<le> calendarFadeFraction q2 f"
proof (cases "years q1 > 0")
  case True
  then have y2: "years q2 > 0" using assms(3) by simp
  have t: "Tk q1 = Tk q2" using assms(2) by (simp add: Tk_def)
  have p: "years q1 powr 0.7 \<le> years q2 powr 0.7"
    using True assms(3) by (intro powr_mono2) simp_all
  have c: "0 \<le> 0.01 * f * arrhenius (Tk q2) 25000"
    using assms(1) arrhenius_nonneg [of "Tk q2" 25000] by simp
  have "0.01 * f * arrhenius (Tk q2) 25000 * years q1 powr 0.7
          \<le> 0.01 * f * arrhenius (Tk q2) 25000 * years q2 powr 0.7"
    using p c by (rule mult_left_mono)
  then show ?thesis using True y2 by (simp only: calendarFadeFraction_def t if_True)
next
  case False
  then have "calendarFadeFraction q1 f = 0" by (simp add: calendarFadeFraction_def)
  then show ?thesis using calendarFadeFraction_nonneg [OF assms(1), of q2] by simp
qed

lemma totalFadePct_mono:
  assumes "0 \<le> f" and "dodPctD q1 = dodPctD q2" and "cRateD q1 = cRateD q2"
    and "avgTemperatureD q1 = avgTemperatureD q2"
    and "max (chargeCyclesD q1) 0 \<le> max (chargeCyclesD q2) 0"
    and "years q1 \<le> years q2"
  shows "totalFadePct q1 f \<le> totalFadePct q2 f"
  using cycleFadeFraction_mono [OF assms(1,2,3,5)] calendarFadeFraction_mono [OF assms(1,4,6)]
  by (simp add: totalFadePct_def)

text \<open>The health of a simulated point, as a function of the payload handed to
  \<^verbatim>\<open>computeDegradation\<close>.\<close>

lemma simHealth_mono:
  assumes "0 \<le> f" and "currentCapacity q1 = None" and "currentCapacity q2 = None"
    and "dodPctD q1 = dodPctD q2" and "cRateD q1 = cRateD q2"
    and "avgTemperatureD q1 = avgTemperatureD q2"
    and "max (chargeCyclesD q1) 0 \<le> max (chargeCyclesD q2) 0"
    and "years q1 \<le> years q2"
  shows "js_ge (toFixed2J (simHealthPct q1 (Num f))) (toFixed2J (simHealthPct q2 (Num f)))"
proof -
  have "totalFadePct q1 f \<le> totalFadePct q2 f"
    using assms(1,4-8) by (rule totalFadePct_mono)
  then have "max 0 (100 - totalFadePct q2 f) \<le> max 0 (100 - totalFadePct q1 f)"
    by simp
  then have "toFixed2 (max 0 (100 - totalFadePct q2 f))
               \<le> toFixed2 (max 0 (100 - totalFadePct q1 f))"
    by (rule toFixed2_mono)
  then show ?thesis
    by (simp add: healthPct_no_measurement assms(2,3))
qed


lemma loopPayload_fields:
  "currentCapacity (loopPayload p i) = None"
  "dodPctD (loopPayload p i) = dodPctD p"
  "cRateD (loopPayload p i) = cRateD p"
  "avgTemperatureD (loopPayload p i) = avgTemperatureD p"
  "chargeCyclesD (loopPayload p i) = i"
  "years (loopPayload p i)
     = max (ageYears p
              * (i / max (if totalCyclesOf p = 0 then 1 else totalCyclesOf p) 1)) 0"
  by (simp_all add: loopPayload_def Let_def dodPctD_def cRateD_def avgTemperatureD_def
        chargeCyclesD_def years_eq ageYears_def)

lemma endPayload_fields:
  "currentCapacity (endPayload p) = None"
  "dodPctD (endPayload p) = dodPctD p"
  "cRateD (endPayload p) = cRateD p"
  "avgTemperatureD (endPayload p) = avgTemperatureD p"
  "chargeCyclesD (endPayload p) = totalCyclesOf p"
  "years (endPayload p) = max (ageYears p) 0"
  by (simp_all add: endPayload_def Let_def dodPctD_def cRateD_def avgTemperatureD_def
        chargeCyclesD_def years_eq ageYears_def)

lemma scaled_age_mono:
  fixes Y a b :: real
  assumes "0 \<le> a" and "a \<le> b"
  shows "max (Y * a) 0 \<le> max (Y * b) 0"
proof (cases "0 \<le> Y")
  case True
  then have "Y * a \<le> Y * b" using assms(2) by (rule mult_left_mono [rotated])
  then show ?thesis by simp
next
  case False
  then have "Y * a \<le> 0" "Y * b \<le> 0"
    using assms by (simp_all add: mult_le_0_iff)
  then show ?thesis by simp
qed

lemma years_loop_mono:
  assumes "0 \<le> i" and "i \<le> j"
  shows "years (loopPayload p i) \<le> years (loopPayload p j)"
proof -
  define m where "m = max (if totalCyclesOf p = 0 then 1 else totalCyclesOf p) 1"
  have m: "0 < m" by (simp add: m_def)
  have "0 \<le> i / m" "i / m \<le> j / m"
    using assms m by (simp_all add: divide_right_mono)
  then have "max (ageYears p * (i / m)) 0 \<le> max (ageYears p * (j / m)) 0"
    by (rule scaled_age_mono)
  then show ?thesis by (simp only: loopPayload_fields m_def)
qed

lemma years_loop_end:
  assumes "0 \<le> j" and "j \<le> totalCyclesOf p"
  shows "years (loopPayload p j) \<le> years (endPayload p)"
proof -
  define m where "m = max (if totalCyclesOf p = 0 then 1 else totalCyclesOf p) 1"
  have m: "0 < m" "totalCyclesOf p \<le> m" by (simp_all add: m_def)
  have "0 \<le> j / m" "j / m \<le> 1"
    using assms m by simp_all
  then have "max (ageYears p * (j / m)) 0 \<le> max (ageYears p * 1) 0"
    by (rule scaled_age_mono)
  then show ?thesis by (simp add: loopPayload_fields endPayload_fields m_def)
qed

lemma health_loopPoint:
  "point_healthPct (loopPoint p cf i) = toFixed2J (simHealthPct (loopPayload p i) cf)"
  by (simp add: loopPoint_def mkPoint_def Let_def)

lemma health_endPoint:
  "point_healthPct (endPoint p cf) = toFixed2J (simHealthPct (endPayload p) cf)"
  by (simp add: endPoint_def mkPoint_def Let_def)

lemma loop_health_mono:
  assumes "0 \<le> f" and "0 \<le> i" and "i \<le> j"
  shows "js_ge (point_healthPct (loopPoint p (Num f) i))
               (point_healthPct (loopPoint p (Num f) j))"
  unfolding health_loopPoint
  using assms years_loop_mono [OF assms(2,3)]
  by (intro simHealth_mono) (simp_all add: loopPayload_fields)

lemma loop_end_health_mono:
  assumes "0 \<le> f" and "0 \<le> j" and "j \<le> totalCyclesOf p"
  shows "js_ge (point_healthPct (loopPoint p (Num f) j))
               (point_healthPct (endPoint p (Num f)))"
  unfolding health_loopPoint health_endPoint
  using assms years_loop_end [OF assms(2,3)]
  by (intro simHealth_mono) (simp_all add: loopPayload_fields endPayload_fields)

lemma trendLoop_points:
  "pt \<in> set (trendLoop p cf i) \<Longrightarrow> pt = loopPoint p cf (cycle pt)"
proof (induction p cf i rule: trendLoop.induct)
  case (1 p cf i)
  show ?case
  proof (cases "i \<le> totalCyclesOf p")
    case True
    from "1.prems" True
    have "pt = loopPoint p cf i \<or> pt \<in> set (trendLoop p cf (i + step (totalCyclesOf p)))"
      by (subst (asm) trendLoop.simps) simp
    then show ?thesis
      using "1.IH" [OF True] by (auto simp: cycle_loopPoint)
  next
    case False
    with "1.prems" show ?thesis by (subst (asm) trendLoop.simps) simp
  qed
qed

lemma trendLoop_health_sorted:
  assumes "0 \<le> f"
  shows "0 \<le> i \<Longrightarrow>
     sorted_wrt (\<lambda>a b. js_ge (point_healthPct a) (point_healthPct b))
       (trendLoop p (Num f) i)"
proof (induction p "Num f" i rule: trendLoop.induct)
  case (1 p i)
  show ?case
  proof (cases "i \<le> totalCyclesOf p")
    case True
    have later: "js_ge (point_healthPct (loopPoint p (Num f) i)) (point_healthPct pt)"
      if "pt \<in> set (trendLoop p (Num f) (i + step (totalCyclesOf p)))" for pt
    proof -
      have "i \<le> cycle pt"
        using trendLoop_bounds [OF that] step_ge [of "totalCyclesOf p"] by simp
      with loop_health_mono [OF assms "1.prems", of "cycle pt" p] trendLoop_points [OF that]
      show ?thesis by simp
    qed
    have "0 \<le> i + step (totalCyclesOf p)"
      using "1.prems" step_ge [of "totalCyclesOf p"] by simp
    from "1.hyps" [OF True this] later show ?thesis
      by (subst trendLoop.simps) (simp add: True)
  next
    case False
    then show ?thesis by (subst trendLoop.simps) simp
  qed
qed

text \<open>
  Claim C10. For every payload that carries a nominal capacity (so for every valid
  profile), the \<open>healthPct\<close> values of the sequence returned by \<^verbatim>\<open>buildTrend\<close> are
  non-increasing along the sequence, the appended terminal point included.
\<close>

theorem trend_health_nonincreasing:
  assumes "nominalCapacity p \<noteq> None"
  shows "\<exists>pts. buildTrend p = Inr pts
           \<and> sorted_wrt (\<lambda>a b. js_ge (point_healthPct a) (point_healthPct b)) pts"
proof -
  from calibration_range [OF assms] obtain f
    where cf: "calculateCalibrationFactor p = Num f" and f: "0.1 \<le> f" by blast
  then have f0: "0 \<le> f" by simp
  define points where "points = trendLoop p (Num f) 0"
  have ne: "points \<noteq> []" by (simp add: points_def trendLoop_ne)
  have sorted_pts:
    "sorted_wrt (\<lambda>a b. js_ge (point_healthPct a) (point_healthPct b)) points"
    unfolding points_def by (rule trendLoop_health_sorted [OF f0]) simp
  have last_ok: "js_ge (point_healthPct pt) (point_healthPct (endPoint p (Num f)))"
    if "pt \<in> set points" for pt
  proof -
    from that have m: "pt \<in> set (trendLoop p (Num f) 0)" by (simp add: points_def)
    from trendLoop_bounds [OF m] have "0 \<le> cycle pt" "cycle pt \<le> totalCyclesOf p"
      by simp_all
    from loop_end_health_mono [OF f0 this] trendLoop_points [OF m]
    show ?thesis by simp
  qed
  show ?thesis
  proof (cases "cycle (last points) < totalCyclesOf p")
    case True
    then have "buildTrend p = Inr (points @ [endPoint p (Num f)])"
      using ne by (simp add: buildTrend_def Let_def cf points_def)
    moreover have "sorted_wrt (\<lambda>a b. js_ge (point_healthPct a) (point_healthPct b))
                     (points @ [endPoint p (Num f)])"
      using sorted_pts last_ok by (simp add: sorted_wrt_append)
    ultimately show ?thesis by simp
  next
    case False
    then have "buildTrend p = Inr points"
      using ne by (simp add: buildTrend_def Let_def cf points_def)
    then show ?thesis using sorted_pts by simp
  qed
qed

theorem trend_health_nonincreasing_witness:
  "nominalCapacity scenario \<noteq> None
   \<and> (\<exists>pts. buildTrend scenario = Inr pts
         \<and> sorted_wrt (\<lambda>a b. js_ge (point_healthPct a) (point_healthPct b)) pts)"
proof -
  have n: "nominalCapacity scenario \<noteq> None" by (simp add: scenario_def)
  from trend_health_nonincreasing [OF n] n show ?thesis by simp
qed

section \<open>A payload without nominal capacity\<close>

text \<open>Without \<^verbatim>\<open>nominalCapacity\<close> the scenario has the calibration factor \<^verbatim>\<open>NaN\<close>,
  and so has every \<open>healthPct\<close> of its trend: \<^verbatim>\<open>calculateCalibrationFactor\<close> does not
  apply the default \<open>100\<close> that \<^verbatim>\<open>computeDegradation\<close> and \<^verbatim>\<open>buildTrend\<close> apply.\<close>

lemma calibration_without_nominalCapacity:
  "calculateCalibrationFactor (scenario \<lparr> nominalCapacity := None \<rparr>) = NaN"
proof -
  have "totalFadePct (scenario \<lparr> nominalCapacity := None \<rparr>) 1 = totalFadePct scenario 1"
    by (simp add: totalFadePct_def cycleFadeFraction_def calendarFadeFraction_def
        DoD_factor_def cRateAccel_def Tk_def years_eq ageYears_def
        chargeCyclesD_def avgTemperatureD_def dodPctD_def cRateD_def scenario_def)
  then have "modelFadePctOf (scenario \<lparr> nominalCapacity := None \<rparr>) = totalFadePct scenario 1"
    using totalFadePct_scenario_bounds by (simp add: modelFadePctOf_eq)
  then show ?thesis
    using totalFadePct_scenario_bounds(1)
    by (simp add: calculateCalibrationFactor_def Let_def) (simp add: scenario_def)
qed

lemma trend_without_nominalCapacity:
  "\<exists>pts. buildTrend (scenario \<lparr> nominalCapacity := None \<rparr>) = Inr pts
         \<and> point_healthPct (hd pts) = NaN"
proof -
  let ?p = "scenario \<lparr> nominalCapacity := None \<rparr>"
  have ne: "trendLoop ?p NaN 0 \<noteq> []" by (rule trendLoop_ne)
  have "point_healthPct (hd (trendLoop ?p NaN 0)) = NaN"
    by (simp add: hd_trendLoop loopPoint_def mkPoint_def Let_def)
  then show ?thesis
    using ne by (simp add: buildTrend_def Let_def calibration_without_nominalCapacity)
qed

end
